theory Spec2Isabelle
  imports Complex_Main "HOL-Library.Char_ord" "HOL-Library.List_Lexorder" "HOL-Library.Sublist"
begin

section \<open>Data model\<close>

text \<open>
  The error classes the pipeline can raise. \<open>IntCastingNaNError\<close> and the parameter
  errors of the clustering library are subclasses of \<open>ValueError\<close>.
\<close>

datatype error = ValueError | KeyError | IndexError

text \<open>
  A cell of the table as \<open>pd.read_csv\<close> hands it over: text, a number, or the missing
  value NaN. A finite floating-point value is modelled by the rational number it
  denotes; the operations of schema coercion on it (the test for NaN, the truncation to
  an integer) are exact. Infinite values are not part of the model, and the integers of
  the identifier column are unbounded (a non-integral double is below \<open>2^52\<close> in
  magnitude, so its truncation fits 64 bits).
\<close>

datatype cell = Text string | Number rat | NaN

text \<open>
  One row of the data frame. The identifier column, the four numeric columns and the
  ordinal column change their type as the pipeline advances, so the row is polymorphic
  in them. The nominal columns hold a category text or the missing value \<open>None\<close>.
\<close>

record ('i, 'n, 'o) row =
  StudentID :: 'i
  StudyHoursPerDay :: 'n
  TechSkill :: 'n
  Motivation :: 'n
  Age :: 'n
  Internet :: 'o
  Device :: "string option"
  Location :: "string option"
  OnlineClassPreference :: "string option"
  DataAccess :: "string option"

type_synonym raw_row = "(cell, cell, string option) row"
type_synonym typed_row = "(int, rat option, string option) row"
type_synonym mapped_row = "(int, rat option, int option) row"

section \<open>Schema coercion (lines 31 to 45 of load_and_prepare_data)\<close>

text \<open>
  \<open>pd.to_numeric(..., errors='coerce')\<close> on one cell: a number stays, NaN stays missing,
  text goes through the library's number parser \<open>parse\<close>, which answers \<open>None\<close> for text
  that is no number.
\<close>

fun to_numeric :: "(string \<Rightarrow> rat option) \<Rightarrow> cell \<Rightarrow> rat option" where
  "to_numeric parse (Number x) = Some x"
| "to_numeric parse (Text s) = parse s"
| "to_numeric parse NaN = None"

text \<open>Column assignments \<open>df[col] = ...\<close> that change the column's type.\<close>

definition assign_StudentID :: "('i \<Rightarrow> 'j) \<Rightarrow> ('i, 'n, 'o) row \<Rightarrow> ('j, 'n, 'o) row" where
  "assign_StudentID f r =
     \<lparr>StudentID = f (StudentID r), StudyHoursPerDay = StudyHoursPerDay r,
      TechSkill = TechSkill r, Motivation = Motivation r, Age = Age r,
      Internet = Internet r, Device = Device r, Location = Location r,
      OnlineClassPreference = OnlineClassPreference r, DataAccess = DataAccess r\<rparr>"

definition assign_numeric_cols :: "('n \<Rightarrow> 'm) \<Rightarrow> ('i, 'n, 'o) row \<Rightarrow> ('i, 'm, 'o) row" where
  "assign_numeric_cols f r =
     \<lparr>StudentID = StudentID r, StudyHoursPerDay = f (StudyHoursPerDay r),
      TechSkill = f (TechSkill r), Motivation = f (Motivation r), Age = f (Age r),
      Internet = Internet r, Device = Device r, Location = Location r,
      OnlineClassPreference = OnlineClassPreference r, DataAccess = DataAccess r\<rparr>"

definition assign_Internet :: "('o \<Rightarrow> 'p) \<Rightarrow> ('i, 'n, 'o) row \<Rightarrow> ('i, 'n, 'p) row" where
  "assign_Internet f r =
     \<lparr>StudentID = StudentID r, StudyHoursPerDay = StudyHoursPerDay r,
      TechSkill = TechSkill r, Motivation = Motivation r, Age = Age r,
      Internet = f (Internet r), Device = Device r, Location = Location r,
      OnlineClassPreference = OnlineClassPreference r, DataAccess = DataAccess r\<rparr>"


text \<open>
  \<open>astype(int)\<close> on a float column: the cast truncates toward zero, and the whole call
  raises when a value of the column is missing.
\<close>

definition trunc :: "rat \<Rightarrow> int" where
  "trunc x = (if 0 \<le> x then \<lfloor>x\<rfloor> else \<lceil>x\<rceil>)"







section \<open>Feature encoder (lines 53 to 59)\<close>

definition internet_map :: "(string \<times> int) list" where
  "internet_map = [(''Slow'', 1), (''Average'', 2), (''Fast'', 3)]"

text \<open>\<open>Series.map(dict)\<close> on one value: a value that is no key of the dict becomes NaN.\<close>

definition series_map :: "(string \<times> int) list \<Rightarrow> string option \<Rightarrow> int option" where
  "series_map m v = (case v of None \<Rightarrow> None | Some s \<Rightarrow> map_of m s)"

definition map_Internet :: "typed_row list \<Rightarrow> mapped_row list" where
  "map_Internet df = map (assign_Internet (series_map internet_map)) df"



text \<open>The values of a column that are not missing, in row order.\<close>

fun notna :: "'a option list \<Rightarrow> 'a list" where
  "notna [] = []"
| "notna (None # xs) = notna xs"
| "notna (Some x # xs) = x # notna xs"







section \<open>Feature scaler (lines 61 to 87)\<close>





section \<open>Cluster fitter and quality score (run_kmeans)\<close>

text \<open>
  Input validation of the clustering library (\<open>check_array\<close>): a matrix without rows or
  with a NaN entry is refused with a \<open>ValueError\<close>; otherwise its numbers are handed on.
\<close>

definition check_array :: "real option list list \<Rightarrow> error + real list list" where
  "check_array X =
     (if X = [] \<or> (\<exists>r \<in> set X. None \<in> set r) then Inl ValueError else Inr (map notna X))"

text \<open>
  \<open>KMeans(n_clusters=k, init='k-means++', random_state=42, n_init=10).fit(X).labels_\<close>.
  The library validates before it fits: \<open>n_clusters\<close> must be at least 1, the data
  must pass \<open>check_array\<close>, and there must be at least \<open>n_clusters\<close> rows; each failure
  is a \<open>ValueError\<close>. The seeded search itself (k-means++ seeding, ten restarts, Lloyd
  iterations in floating point) is the parameter \<open>search\<close>.
\<close>

definition KMeans_fit ::
  "(real list list \<Rightarrow> nat \<Rightarrow> int list) \<Rightarrow> real option list list \<Rightarrow> int \<Rightarrow> error + int list" where
  "KMeans_fit search X k =
     (if k < 1 then Inl ValueError
      else case check_array X of
             Inl e \<Rightarrow> Inl e
           | Inr X' \<Rightarrow> if int (length X') < k then Inl ValueError else Inr (search X' (nat k)))"

text \<open>
  \<open>silhouette_score(X, labels)\<close> with the Euclidean metric, in exact arithmetic. For
  the point \<open>i\<close>, \<open>a\<close> is its mean distance to the other points of its cluster and \<open>b\<close>
  the least mean distance to the points of another cluster. The library computes
  \<open>(b - a) / max(a, b)\<close> and turns an undefined quotient (a cluster of one point, or
  \<open>max(a, b) = 0\<close>) into 0. Before that it checks the number of distinct labels: unless
  it is more than 1 and less than the number of rows, it raises a \<open>ValueError\<close>.
\<close>

definition euclidean :: "real list \<Rightarrow> real list \<Rightarrow> real" where
  "euclidean x y = sqrt (\<Sum>(a, b) \<leftarrow> zip x y. (a - b)\<^sup>2)"

definition cluster_dist :: "real list list \<Rightarrow> int list \<Rightarrow> nat \<Rightarrow> int \<Rightarrow> real" where
  "cluster_dist X labels i l =
     (\<Sum>(x, m) \<leftarrow> zip X labels. if m = l then euclidean (X ! i) x else 0)"

definition silhouette_sample :: "real list list \<Rightarrow> int list \<Rightarrow> nat \<Rightarrow> real" where
  "silhouette_sample X labels i =
     (let l = labels ! i; n = count_list labels l
      in if n = 1 then 0
         else let a = cluster_dist X labels i l / real (n - 1);
                  b = Min (set (map (\<lambda>m. cluster_dist X labels i m / real (count_list labels m))
                                  (filter (\<lambda>m. m \<noteq> l) (remdups labels))))
              in if max a b = 0 then 0 else (b - a) / max a b)"

definition silhouette_samples :: "real list list \<Rightarrow> int list \<Rightarrow> real list" where
  "silhouette_samples X labels = map (silhouette_sample X labels) [0..<length X]"

definition silhouette_score :: "real option list list \<Rightarrow> int list \<Rightarrow> error + real" where
  "silhouette_score X labels =
     (case check_array X of
        Inl e \<Rightarrow> Inl e
      | Inr X' \<Rightarrow>
          if length labels \<noteq> length X' then Inl ValueError
          else let n_labels = length (remdups labels)
               in if \<not> (1 < n_labels \<and> n_labels < length X') then Inl ValueError
                  else Inr (sum_list (silhouette_samples X' labels) / real (length X')))"

text \<open>\<open>run_kmeans\<close>: fit, score (the score is only printed), return the labels.\<close>

definition run_kmeans ::
  "(real list list \<Rightarrow> nat \<Rightarrow> int list) \<Rightarrow> real option list list \<Rightarrow> int \<Rightarrow> error + int list" where
  "run_kmeans search scaled_data k =
     (case KMeans_fit search scaled_data k of
        Inl e \<Rightarrow> Inl e
      | Inr labels \<Rightarrow>
          (case silhouette_score scaled_data labels of
             Inl e \<Rightarrow> Inl e
           | Inr score \<Rightarrow> Inr labels))"

section \<open>Cluster profiler (analyze_clusters)\<close>






text \<open>
  \<open>Series.mode()\<close>: the values that occur most often among the values that are not
  missing, in sorted order.
\<close>

definition series_mode :: "string option list \<Rightarrow> string list" where
  "series_mode xs =
     (let vs = notna xs
      in sort (filter (\<lambda>v. \<forall>w \<in> set vs. count_list vs w \<le> count_list vs v) (remdups vs)))"

text \<open>
  \<open>x.mode().iloc[0]\<close> on the columns of a group: the table of modes has as many rows as
  the longest list of modes, shorter lists padded with NaN, and \<open>iloc[0]\<close> takes its first
  row; on a table without rows it raises \<open>IndexError\<close>.
\<close>

definition mode_iloc0 :: "string option list list \<Rightarrow> error + string option list" where
  "mode_iloc0 cols =
     (let ms = map series_mode cols
      in if \<forall>m \<in> set ms. m = [] then Inl IndexError
         else Inr (map (\<lambda>m. case m of [] \<Rightarrow> None | v # _ \<Rightarrow> Some v) ms))"




definition typed_record :: "(string \<Rightarrow> rat option) \<Rightarrow> raw_row \<Rightarrow> typed_row" where
  "typed_record parse r =
     assign_numeric_cols (to_numeric parse)
       (assign_StudentID (\<lambda>c. case to_numeric parse c of Some x \<Rightarrow> trunc x | None \<Rightarrow> 0) r)"







section \<open>Properties of schema coercion\<close>






lemma typed_record_categorical:
  "Internet (typed_record parse r) = Internet r"
  "Device (typed_record parse r) = Device r"
  "Location (typed_record parse r) = Location r"
  "OnlineClassPreference (typed_record parse r) = OnlineClassPreference r"
  "DataAccess (typed_record parse r) = DataAccess r"
  by (simp_all add: typed_record_def assign_numeric_cols_def assign_StudentID_def)






section \<open>Properties of the feature encoder\<close>

lemma series_map_internet_map:
  "series_map internet_map v =
     (if v = Some ''Slow'' then Some 1 else if v = Some ''Average'' then Some 2
      else if v = Some ''Fast'' then Some 3 else None)"
  by (cases v) (simp_all add: series_map_def internet_map_def)

text \<open>
  C2. The ordinal column of the encoded table is, row by row, the lookup of the row's own
  value: the code of a row does not depend on the other rows, their order or their
  number. The lookup sends Slow to 1, Average to 2 and Fast to 3, and a value outside
  these three (a missing value too) is sent to no number at all, so never to 1, 2 or 3.
\<close>

theorem map_Internet_fixed_lookup:
  "length (map_Internet df) = length df
   \<and> map Internet (map_Internet df) = map (\<lambda>r. series_map internet_map (Internet r)) df
   \<and> (\<forall>i < length df. Internet (map_Internet df ! i) = series_map internet_map (Internet (df ! i)))
   \<and> series_map internet_map (Some ''Slow'') = Some 1
   \<and> series_map internet_map (Some ''Average'') = Some 2
   \<and> series_map internet_map (Some ''Fast'') = Some 3
   \<and> (v \<notin> {Some ''Slow'', Some ''Average'', Some ''Fast''} \<longrightarrow>
        series_map internet_map v = None
        \<and> series_map internet_map v \<notin> {Some 1, Some 2, Some 3})"
  by (simp add: series_map_internet_map map_Internet_def assign_Internet_def o_def)

theorem map_Internet_fixed_lookup_witness:
  "map Internet (map_Internet
     [\<lparr>StudentID = 1, StudyHoursPerDay = Some 2, TechSkill = Some 3,
       Motivation = Some 4, Age = Some 20, Internet = Some ''Fast'',
       Device = Some ''Laptop'', Location = Some ''Urban'',
       OnlineClassPreference = Some ''Yes'', DataAccess = Some ''WiFi''\<rparr>,
      \<lparr>StudentID = 2, StudyHoursPerDay = Some 2, TechSkill = Some 3,
       Motivation = Some 4, Age = Some 20, Internet = Some ''Medium'',
       Device = Some ''Laptop'', Location = Some ''Urban'',
       OnlineClassPreference = Some ''Yes'', DataAccess = Some ''WiFi''\<rparr>]) = [Some 3, None]
   \<and> Some ''Medium'' \<notin> {Some ''Slow'', Some ''Average'', Some ''Fast''}
   \<and> series_map internet_map (Some ''Medium'') = None"
  using map_Internet_fixed_lookup
    [of "[\<lparr>StudentID = 1, StudyHoursPerDay = Some 2, TechSkill = Some 3,
       Motivation = Some 4, Age = Some 20, Internet = Some ''Fast'',
       Device = Some ''Laptop'', Location = Some ''Urban'',
       OnlineClassPreference = Some ''Yes'', DataAccess = Some ''WiFi''\<rparr>,
      \<lparr>StudentID = 2, StudyHoursPerDay = Some 2, TechSkill = Some 3,
       Motivation = Some 4, Age = Some 20, Internet = Some ''Medium'',
       Device = Some ''Laptop'', Location = Some ''Urban'',
       OnlineClassPreference = Some ''Yes'', DataAccess = Some ''WiFi''\<rparr>]" "Some ''Medium''"]
  by (simp add: series_map_internet_map)
section \<open>Properties of the one-hot encoding\<close>

lemma set_notna: "set (notna xs) = {v. Some v \<in> set xs}"
  by (induction xs rule: notna.induct) auto

























section \<open>Properties of the scaler stage\<close>













section \<open>Properties of the cluster fitter\<close>

lemma check_array_eq:
  "check_array X = Inr X' \<longleftrightarrow> X \<noteq> [] \<and> (\<forall>r \<in> set X. None \<notin> set r) \<and> X' = map notna X"
  by (auto simp: check_array_def)

lemma check_array_error: "check_array X = Inl e \<Longrightarrow> e = ValueError"
  by (auto simp: check_array_def split: if_splits)



section \<open>Properties of the quality score\<close>

lemma euclidean_nonneg: "0 \<le> euclidean x y"
  unfolding euclidean_def
  by (rule real_sqrt_ge_zero, rule sum_list_nonneg) auto

text \<open>
  The sum \<open>cluster_dist\<close> for the point's own cluster runs over the point itself too, as
  the library's does; that term is 0, so \<open>a\<close> is the mean distance to the other points.
\<close>

lemma euclidean_self: "euclidean x x = 0"
  by (simp add: euclidean_def zip_same_conv_map o_def)

lemma cluster_dist_nonneg: "0 \<le> cluster_dist X labels i l"
  unfolding cluster_dist_def
  by (rule sum_list_nonneg) (auto simp: euclidean_nonneg)

lemma ratio_bounds:
  fixes a b :: real
  assumes "0 \<le> a" "0 \<le> b"
  shows "-1 \<le> (if max a b = 0 then 0 else (b - a) / max a b)
       \<and> (if max a b = 0 then 0 else (b - a) / max a b) \<le> 1"
proof (cases "max a b = 0")
  case True
  then show ?thesis by simp
next
  case False
  with assms have p: "0 < max a b" by (auto simp: max_def split: if_splits)
  have "- max a b \<le> b - a" "b - a \<le> max a b"
    using assms by (auto simp: max_def)
  then show ?thesis
    using p False by (simp add: pos_le_divide_eq pos_divide_le_eq)
qed

lemma silhouette_sample_bounds:
  assumes "\<exists>m \<in> set labels. m \<noteq> labels ! i"
  shows "-1 \<le> silhouette_sample X labels i \<and> silhouette_sample X labels i \<le> 1"
proof -
  let ?l = "labels ! i"
  let ?n = "count_list labels ?l"
  let ?a = "cluster_dist X labels i ?l / real (?n - 1)"
  let ?S = "set (map (\<lambda>m. cluster_dist X labels i m / real (count_list labels m))
                                  (filter (\<lambda>m. m \<noteq> ?l) (remdups labels)))"
  let ?b = "Min ?S"
  have a: "0 \<le> ?a"
    by (simp add: cluster_dist_nonneg)
  have "finite ?S" "?S \<noteq> {}"
    using assms by auto
  then have "?b \<in> ?S"
    by (rule Min_in)
  then have b: "0 \<le> ?b"
    by (auto simp: cluster_dist_nonneg)
  show ?thesis
  proof (cases "?n = 1")
    case True
    then show ?thesis
      by (simp add: silhouette_sample_def)
  next
    case False
    have "silhouette_sample X labels i = (if max ?a ?b = 0 then 0 else (?b - ?a) / max ?a ?b)"
      unfolding silhouette_sample_def Let_def using False by (simp only: if_False)
    then show ?thesis
      using ratio_bounds [OF a b] by (simp only:)
  qed
qed

lemma mean_bounds:
  fixes xs :: "real list"
  assumes "\<forall>x \<in> set xs. -1 \<le> x \<and> x \<le> 1" "xs \<noteq> []"
  shows "-1 \<le> sum_list xs / real (length xs) \<and> sum_list xs / real (length xs) \<le> 1"
proof -
  have "- real (length xs) \<le> sum_list xs \<and> sum_list xs \<le> real (length xs)"
    using assms(1) by (induction xs) auto
  moreover have "0 < real (length xs)"
    using assms(2) by simp
  ultimately show ?thesis
    by (simp add: pos_le_divide_eq pos_divide_le_eq)
qed


lemma length_remdups_card: "length (remdups xs) = card (set xs)"
  by (simp add: length_remdups_card_conv)

lemma silhouette_score_eq:
  assumes "X \<noteq> []" "\<forall>r \<in> set X. None \<notin> set r" "length labels = length X"
  shows "silhouette_score X labels =
     (if 1 < card (set labels) \<and> card (set labels) < length X
      then Inr (sum_list (silhouette_samples (map notna X) labels) / real (length X))
      else Inl ValueError)"
  using assms by (simp add: silhouette_score_def check_array_def Let_def length_remdups_card)

lemma other_label_exists:
  assumes "1 < card (set labels)"
  shows "\<exists>m \<in> set labels. m \<noteq> l"
proof (rule ccontr)
  assume "\<not> (\<exists>m \<in> set labels. m \<noteq> l)"
  then have "set labels \<subseteq> {l}" by auto
  then have "card (set labels) \<le> card {l}" by (intro card_mono) auto
  with assms show False by simp
qed

text \<open>
  C6, as the code has it. Take a matrix with at least one row and no missing entry and
  one label per row. When the labels take between 2 and \<open>n - 1\<close> distinct values, the
  scorer returns the mean of the per-point terms, and that mean and every term lie
  between -1 and 1; the term of a point that is alone in its cluster is 0. When the
  labels take a single value (\<open>k = 1\<close>) or \<open>n\<close> distinct values (every cluster a
  singleton), the scorer returns no score: it raises a \<open>ValueError\<close>.
\<close>

theorem silhouette_score_range:
  assumes "X \<noteq> []" and "\<forall>r \<in> set X. None \<notin> set r" and "length labels = length X"
  shows "(2 \<le> card (set labels) \<and> card (set labels) \<le> length X - 1 \<longrightarrow>
           (\<exists>s. silhouette_score X labels = Inr s
                \<and> s = sum_list (silhouette_samples (map notna X) labels) / real (length X)
                \<and> -1 \<le> s \<and> s \<le> 1)
         \<and> (\<forall>i < length X.
                -1 \<le> silhouette_sample (map notna X) labels i
              \<and> silhouette_sample (map notna X) labels i \<le> 1
              \<and> (count_list labels (labels ! i) = 1 \<longrightarrow>
                    silhouette_sample (map notna X) labels i = 0)))
       \<and> (card (set labels) = 1 \<or> card (set labels) = length X \<longrightarrow>
            silhouette_score X labels = Inl ValueError)"
proof (intro conjI impI)
  assume k: "2 \<le> card (set labels) \<and> card (set labels) \<le> length X - 1"
  have n: "0 < length X"
    using assms(1) by simp
  have b: "-1 \<le> silhouette_sample (map notna X) labels i
         \<and> silhouette_sample (map notna X) labels i \<le> 1" for i
    using k by (intro silhouette_sample_bounds other_label_exists) simp
  have "\<forall>x \<in> set (silhouette_samples (map notna X) labels). -1 \<le> x \<and> x \<le> 1"
    using b by (auto simp: silhouette_samples_def)
  moreover have "silhouette_samples (map notna X) labels \<noteq> []"
    using assms(1) by (simp add: silhouette_samples_def)
  moreover have "length (silhouette_samples (map notna X) labels) = length X"
    by (simp add: silhouette_samples_def)
  ultimately have m: "-1 \<le> sum_list (silhouette_samples (map notna X) labels) / real (length X)
      \<and> sum_list (silhouette_samples (map notna X) labels) / real (length X) \<le> 1"
    using mean_bounds [of "silhouette_samples (map notna X) labels"] by simp
  have "silhouette_score X labels =
      Inr (sum_list (silhouette_samples (map notna X) labels) / real (length X))"
    using k n by (subst silhouette_score_eq [OF assms]) auto
  with m show "\<exists>s. silhouette_score X labels = Inr s
                \<and> s = sum_list (silhouette_samples (map notna X) labels) / real (length X)
                \<and> -1 \<le> s \<and> s \<le> 1"
    by simp
  show "\<forall>i < length X.
                -1 \<le> silhouette_sample (map notna X) labels i
              \<and> silhouette_sample (map notna X) labels i \<le> 1
              \<and> (count_list labels (labels ! i) = 1 \<longrightarrow>
                    silhouette_sample (map notna X) labels i = 0)"
    using b by (simp add: silhouette_sample_def)
next
  assume "card (set labels) = 1 \<or> card (set labels) = length X"
  then show "silhouette_score X labels = Inl ValueError"
    by (subst silhouette_score_eq [OF assms]) auto
qed

theorem silhouette_score_range_witness:
  "(\<exists>s. silhouette_score [[Some 0], [Some 1], [Some 5]] [0, 0, 1] = Inr s \<and> -1 \<le> s \<and> s \<le> 1)
   \<and> silhouette_sample [[0], [1], [5]] [0, 0, 1] 2 = 0
   \<and> silhouette_score [[Some 0], [Some 1], [Some 5]] [0, 0, 0] = Inl ValueError"
  using silhouette_score_range [of "[[Some 0], [Some 1], [Some 5]]" "[0, 0, 1]"]
    silhouette_score_range [of "[[Some 0], [Some 1], [Some 5]]" "[0, 0, 0]"]
  by (auto simp: silhouette_sample_def)

text \<open>
  C6 as stated fails: with one cluster, and with two singleton clusters, the scorer does
  not return 0 but raises, and \<open>run_kmeans\<close> with \<open>k = 1\<close> raises with it.
\<close>

theorem silhouette_score_degenerate_counterexample:
  "silhouette_score [[Some 0], [Some 1]] [0, 0] = Inl ValueError
   \<and> silhouette_score [[Some 0], [Some 1]] [0, 1] = Inl ValueError
   \<and> run_kmeans (\<lambda>X k. [0, 0]) [[Some 0], [Some 1]] 1 = Inl ValueError"
  by (simp add: silhouette_score_def check_array_def run_kmeans_def KMeans_fit_def)

section \<open>Properties of the cluster profiler\<close>

lemma count_list_notna: "count_list (notna xs) v = count_list xs (Some v)"
  by (induction xs rule: notna.induct) auto

lemma set_series_mode:
  "set (series_mode xs) =
     {v. Some v \<in> set xs \<and> (\<forall>w. count_list xs (Some w) \<le> count_list xs (Some v))}"
proof -
  have "(\<forall>w \<in> set (notna xs). count_list xs (Some w) \<le> count_list xs (Some v))
      \<longleftrightarrow> (\<forall>w. count_list xs (Some w) \<le> count_list xs (Some v))" for v
  proof
    assume a: "\<forall>w \<in> set (notna xs). count_list xs (Some w) \<le> count_list xs (Some v)"
    show "\<forall>w. count_list xs (Some w) \<le> count_list xs (Some v)"
    proof
      fix w
      show "count_list xs (Some w) \<le> count_list xs (Some v)"
      proof (cases "Some w \<in> set xs")
        case True
        with a show ?thesis by (simp add: set_notna)
      next
        case False
        then have "count_list xs (Some w) = 0" by (simp add: count_list_0_iff)
        then show ?thesis by simp
      qed
    qed
  qed simp
  then show ?thesis
    by (auto simp: series_mode_def Let_def count_list_notna set_notna)
qed


lemma series_mode_empty: "series_mode xs = [] \<longleftrightarrow> (\<forall>x \<in> set xs. x = None)"
proof
  assume e: "series_mode xs = []"
  show "\<forall>x \<in> set xs. x = None"
  proof (rule ccontr)
    assume "\<not> (\<forall>x \<in> set xs. x = None)"
    then have ne: "notna xs \<noteq> []"
      using set_notna [of xs] by auto
    define C where "C = (\<lambda>v. count_list xs (Some v)) ` set (notna xs)"
    have "finite C" "C \<noteq> {}"
      using ne by (auto simp: C_def)
    then have "Max C \<in> C" by (rule Max_in)
    then obtain v where v: "v \<in> set (notna xs)" "count_list xs (Some v) = Max C"
      by (auto simp: C_def)
    have "count_list xs (Some w) \<le> count_list xs (Some v)" for w
    proof (cases "w \<in> set (notna xs)")
      case True
      then have "count_list xs (Some w) \<in> C" by (simp add: C_def)
      then show ?thesis using \<open>finite C\<close> v(2) by simp
    next
      case False
      then have "count_list xs (Some w) = 0"
        by (simp add: set_notna count_list_0_iff)
      then show ?thesis by simp
    qed
    with v(1) have "v \<in> set (series_mode xs)"
      by (simp add: set_series_mode set_notna)
    with e show False by simp
  qed
next
  assume "\<forall>x \<in> set xs. x = None"
  then have "set (series_mode xs) = {}"
    by (auto simp: set_series_mode)
  then show "series_mode xs = []" by simp
qed





lemma mode_iloc0_Inl:
  assumes "\<forall>c \<in> set cols. \<forall>x \<in> set c. x = None"
  shows "mode_iloc0 cols = Inl IndexError"
proof -
  from assms have "\<forall>m \<in> set (map series_mode cols). m = []"
    by (auto simp: series_mode_empty)
  then show ?thesis
    by (simp add: mode_iloc0_def Let_def)
qed









end
